theory Spec2Isabelle
  imports Main
begin

section \<open>Python values\<close>

text \<open>
  The client is dynamically typed: request bodies, filter values and decoded JSON
  responses are arbitrary Python objects. One datatype holds the values that
  \<^verbatim>\<open>json\<close> decodes to, and the \<^verbatim>\<open>tuple\<close>, which a caller can pass as a filter value
  and which stands for the sequences that are not a \<^verbatim>\<open>list\<close>. A \<^verbatim>\<open>dict\<close> is an
  association list in insertion order (keys are strings, as in JSON objects and keyword
  arguments). Floats are left out. Strings are lists of code points below 256.
\<close>

datatype pyval =
    PNone
  | PBool bool
  | PInt int
  | PStr string
  | PList "pyval list"
  | PTuple "pyval list"
  | PDict "(string \<times> pyval) list"

type_synonym pydict = "(string \<times> pyval) list"

text \<open>\<^verbatim>\<open>d[k] = v\<close>: an existing key keeps its position, a new key goes last.\<close>

fun dict_set :: "'k \<Rightarrow> 'v \<Rightarrow> ('k \<times> 'v) list \<Rightarrow> ('k \<times> 'v) list" where
  "dict_set k v [] = [(k, v)]"
| "dict_set k v ((k', v') # d) =
     (if k' = k then (k, v) # d else (k', v') # dict_set k v d)"

text \<open>Truth value testing (\<^verbatim>\<open>if x:\<close>).\<close>

fun truthy :: "pyval \<Rightarrow> bool" where
  "truthy PNone = False"
| "truthy (PBool b) = b"
| "truthy (PInt i) = (i \<noteq> 0)"
| "truthy (PStr s) = (s \<noteq> [])"
| "truthy (PList xs) = (xs \<noteq> [])"
| "truthy (PTuple xs) = (xs \<noteq> [])"
| "truthy (PDict d) = (d \<noteq> [])"

text \<open>\<^verbatim>\<open>isinstance(value, (dict, list))\<close>\<close>

fun isinstance_dict_list :: "pyval \<Rightarrow> bool" where
  "isinstance_dict_list (PDict d) = True"
| "isinstance_dict_list (PList xs) = True"
| "isinstance_dict_list v = False"

subsection \<open>Text of numbers and strings\<close>

fun str_nat :: "nat \<Rightarrow> string" where
  "str_nat n =
     (if n < 10 then [''0123456789'' ! n]
      else str_nat (n div 10) @ [''0123456789'' ! (n mod 10)])"

definition str_int :: "int \<Rightarrow> string" where
  "str_int i = (if i < 0 then CHR ''-'' # str_nat (nat (- i)) else str_nat (nat i))"

definition hex2 :: "nat \<Rightarrow> string" where
  "hex2 n = [''0123456789abcdef'' ! (n div 16 mod 16), ''0123456789abcdef'' ! (n mod 16)]"

text \<open>\<^verbatim>\<open>sep.join(xs)\<close>\<close>

fun join :: "string \<Rightarrow> string list \<Rightarrow> string" where
  "join sep [] = []"
| "join sep [x] = x"
| "join sep (x # y # xs) = x @ sep @ join sep (y # xs)"

subsection \<open>\<^verbatim>\<open>repr\<close> and \<^verbatim>\<open>str\<close>\<close>

text \<open>
  \<^verbatim>\<open>repr\<close> of a string: single quotes, unless the string has a single quote and no
  double quote; the backslash, the quote in use, tab, newline and carriage return are
  escaped, and a character that is not printable is written \<^verbatim>\<open>\xhh\<close>.
\<close>

definition repr_quote :: "string \<Rightarrow> char" where
  "repr_quote s = (if CHR 0x27 \<in> set s \<and> CHR 0x22 \<notin> set s then CHR 0x22 else CHR 0x27)"

definition repr_char :: "char \<Rightarrow> char \<Rightarrow> string" where
  "repr_char q c =
     (if c = CHR 0x5C then [CHR 0x5C, CHR 0x5C]
      else if c = q then [CHR 0x5C, q]
      else if c = CHR 0x09 then [CHR 0x5C, CHR ''t'']
      else if c = CHR 0x0A then [CHR 0x5C, CHR ''n'']
      else if c = CHR 0x0D then [CHR 0x5C, CHR ''r'']
      else if (of_char c :: nat) < 32 \<or> (of_char c :: nat) = 127
              \<or> (128 \<le> (of_char c :: nat) \<and> (of_char c :: nat) \<le> 160)
              \<or> (of_char c :: nat) = 173
           then [CHR 0x5C, CHR ''x''] @ hex2 (of_char c)
      else [c])"

definition repr_str :: "string \<Rightarrow> string" where
  "repr_str s = [repr_quote s] @ concat (map (repr_char (repr_quote s)) s) @ [repr_quote s]"

primrec py_repr :: "pyval \<Rightarrow> string" where
  "py_repr PNone = ''None''"
| "py_repr (PBool b) = (if b then ''True'' else ''False'')"
| "py_repr (PInt i) = str_int i"
| "py_repr (PStr s) = repr_str s"
| "py_repr (PList xs) = ''['' @ join '', '' (map py_repr xs) @ '']''"
| "py_repr (PTuple xs) =
     (case map py_repr xs of
        [x] \<Rightarrow> ''('' @ x @ '',)''
      | rs \<Rightarrow> ''('' @ join '', '' rs @ '')'')"
| "py_repr (PDict d) =
     ''{'' @ join '', '' (map (\<lambda>(k, text). repr_str k @ '': '' @ text)
                           (map (map_prod id py_repr) d)) @ ''}''"

text \<open>\<^verbatim>\<open>str(value)\<close>: a string is itself, any other value is its \<^verbatim>\<open>repr\<close>.\<close>

definition py_str :: "pyval \<Rightarrow> string" where
  "py_str v = (case v of PStr s \<Rightarrow> s | _ \<Rightarrow> py_repr v)"

subsection \<open>\<^verbatim>\<open>json.dumps\<close> with its default arguments\<close>

text \<open>
  Item separator \<^verbatim>\<open>', '\<close>, key separator \<^verbatim>\<open>': '\<close>, \<^verbatim>\<open>ensure_ascii=True\<close>: a
  character outside the range from space to tilde is written as an escape. A tuple is
  written as an array, like a list.
\<close>

definition json_escape_char :: "char \<Rightarrow> string" where
  "json_escape_char c =
     (if c = CHR 0x22 then [CHR 0x5C, CHR 0x22]
      else if c = CHR 0x5C then [CHR 0x5C, CHR 0x5C]
      else if c = CHR 0x0A then [CHR 0x5C, CHR ''n'']
      else if c = CHR 0x0D then [CHR 0x5C, CHR ''r'']
      else if c = CHR 0x09 then [CHR 0x5C, CHR ''t'']
      else if c = CHR 0x08 then [CHR 0x5C, CHR ''b'']
      else if c = CHR 0x0C then [CHR 0x5C, CHR ''f'']
      else if 32 \<le> (of_char c :: nat) \<and> (of_char c :: nat) \<le> 126 then [c]
      else [CHR 0x5C, CHR ''u'', CHR ''0'', CHR ''0''] @ hex2 (of_char c))"

definition json_string :: "string \<Rightarrow> string" where
  "json_string s = [CHR 0x22] @ concat (map json_escape_char s) @ [CHR 0x22]"

primrec json_dumps :: "pyval \<Rightarrow> string" where
  "json_dumps PNone = ''null''"
| "json_dumps (PBool b) = (if b then ''true'' else ''false'')"
| "json_dumps (PInt i) = str_int i"
| "json_dumps (PStr s) = json_string s"
| "json_dumps (PList xs) = ''['' @ join '', '' (map json_dumps xs) @ '']''"
| "json_dumps (PTuple xs) = ''['' @ join '', '' (map json_dumps xs) @ '']''"
| "json_dumps (PDict d) =
     ''{'' @ join '', '' (map (\<lambda>(k, text). json_string k @ '': '' @ text)
                           (map (map_prod id json_dumps) d)) @ ''}''"

section \<open>Configuration, envelope and error types (types.py)\<close>

text \<open>\<^verbatim>\<open>s.rstrip('/')\<close> and \<^verbatim>\<open>s.lstrip('/')\<close>: every slash at that end goes.\<close>

definition lstrip_slash :: "string \<Rightarrow> string" where
  "lstrip_slash s = dropWhile (\<lambda>c. c = CHR ''/'') s"

definition rstrip_slash :: "string \<Rightarrow> string" where
  "rstrip_slash s = rev (dropWhile (\<lambda>c. c = CHR ''/'') (rev s))"

record MetaBaseConfig =
  url :: string
  api_key :: string
  timeout :: int
  headers :: "(string \<times> string) list"
  debug :: bool

text \<open>
  \<^verbatim>\<open>MetaBaseConfig.__init__\<close>; \<^verbatim>\<open>headers or {}\<close> turns an absent mapping into the
  empty one.
\<close>

definition MetaBaseConfig_init ::
  "string \<Rightarrow> string \<Rightarrow> int \<Rightarrow> (string \<times> string) list option \<Rightarrow> bool \<Rightarrow> MetaBaseConfig" where
  "MetaBaseConfig_init url0 api_key0 timeout0 headers0 debug0 =
     \<lparr> url = rstrip_slash url0,
       api_key = api_key0,
       timeout = timeout0,
       headers = (case headers0 of None \<Rightarrow> [] | Some h \<Rightarrow> h),
       debug = debug0 \<rparr>"

text \<open>
  The two clock reads of the code: \<^verbatim>\<open>time.strftime('%Y-%m-%dT%H:%M:%SZ', time.gmtime())\<close>
  in the client and \<^verbatim>\<open>datetime.utcnow().isoformat()\<close> in \<^verbatim>\<open>APIError.__init__\<close>.
\<close>

record clock =
  strftime_now :: string
  utcnow_isoformat :: string

record APIError =
  code :: pyval
  message :: pyval
  details :: pyval
  timestamp :: pyval

text \<open>\<^verbatim>\<open>APIError.__init__\<close>: \<^verbatim>\<open>self.timestamp = timestamp or datetime.utcnow().isoformat()\<close>\<close>

definition APIError_init :: "clock \<Rightarrow> pyval \<Rightarrow> pyval \<Rightarrow> pyval \<Rightarrow> pyval \<Rightarrow> APIError" where
  "APIError_init clk code0 message0 details0 timestamp0 =
     \<lparr> code = code0,
       message = message0,
       details = details0,
       timestamp = (if truthy timestamp0 then timestamp0 else PStr (utcnow_isoformat clk)) \<rparr>"

text \<open>
  \<^verbatim>\<open>APIResponse\<close>: every field is optional and defaults to \<^verbatim>\<open>None\<close>; the constructor
  stores what it is given.
\<close>

record APIResponse =
  data :: pyval
  count :: pyval
  limit :: pyval
  offset :: pyval
  has_next :: pyval
  error :: "APIError option"

definition APIResponse_init ::
  "pyval \<Rightarrow> pyval \<Rightarrow> pyval \<Rightarrow> pyval \<Rightarrow> pyval \<Rightarrow> APIError option \<Rightarrow> APIResponse" where
  "APIResponse_init data0 count0 limit0 offset0 has_next0 error0 =
     \<lparr> data = data0, count = count0, limit = limit0, offset = offset0,
       has_next = has_next0, error = error0 \<rparr>"

record QueryOptions =
  qo_select :: "string list"
  qo_where :: pydict
  qo_order :: "string option"
  qo_limit :: "int option"
  qo_offset :: "int option"
  qo_joins :: "(string \<times> string \<times> string option \<times> string) list"
  qo_group_by :: "string list"
  qo_having :: pydict

text \<open>\<^verbatim>\<open>QueryOptions.__init__\<close>: \<^verbatim>\<open>select or []\<close>, \<^verbatim>\<open>where or {}\<close> and so on.\<close>

definition QueryOptions_init ::
  "string list option \<Rightarrow> pydict option \<Rightarrow> string option \<Rightarrow> int option \<Rightarrow> int option \<Rightarrow>
   (string \<times> string \<times> string option \<times> string) list option \<Rightarrow> string list option \<Rightarrow>
   pydict option \<Rightarrow> QueryOptions" where
  "QueryOptions_init select0 where0 order0 limit0 offset0 joins0 group_by0 having0 =
     \<lparr> qo_select = (case select0 of None \<Rightarrow> [] | Some s \<Rightarrow> s),
       qo_where = (case where0 of None \<Rightarrow> [] | Some w \<Rightarrow> w),
       qo_order = order0,
       qo_limit = limit0,
       qo_offset = offset0,
       qo_joins = (case joins0 of None \<Rightarrow> [] | Some j \<Rightarrow> j),
       qo_group_by = (case group_by0 of None \<Rightarrow> [] | Some g \<Rightarrow> g),
       qo_having = (case having0 of None \<Rightarrow> [] | Some h \<Rightarrow> h) \<rparr>"

record InsertOptions =
  ins_returning :: "string list"

definition InsertOptions_init :: "string list option \<Rightarrow> InsertOptions" where
  "InsertOptions_init returning0 =
     \<lparr> ins_returning = (case returning0 of None \<Rightarrow> [] | Some r \<Rightarrow> r) \<rparr>"

record UpdateOptions =
  upd_returning :: "string list"

definition UpdateOptions_init :: "string list option \<Rightarrow> UpdateOptions" where
  "UpdateOptions_init returning0 =
     \<lparr> upd_returning = (case returning0 of None \<Rightarrow> [] | Some r \<Rightarrow> r) \<rparr>"

section \<open>The transport (the \<^verbatim>\<open>requests\<close> library)\<close>

datatype exn =
    JSONDecodeError string
  | KeyError
  | AttributeError
  | RequestException string

record response =
  status_code :: int
  reason :: string
  body :: "string + pyval"

text \<open>
  \<^verbatim>\<open>response.json()\<close>: the decoded body, or a decode error with its description
  (\<^verbatim>\<open>Inl\<close> in the \<open>body\<close> field: the body is not JSON).
\<close>

definition response_json :: "response \<Rightarrow> exn + pyval" where
  "response_json r = (case body r of Inl msg \<Rightarrow> Inl (JSONDecodeError msg) | Inr v \<Rightarrow> Inr v)"

record http_request =
  req_method :: string
  req_url :: string
  req_json :: pyval
  req_params :: "pydict option"
  req_headers :: "(string \<times> string) list"

text \<open>
  What the code takes from its libraries and from the network:
  \<^item> \<open>urljoin\<close>: \<^verbatim>\<open>urllib.parse.urljoin\<close>;
  \<^item> \<open>session_request\<close>: \<^verbatim>\<open>Session.request\<close>, which answers or raises;
  \<^item> \<open>json_error_is_request_exception\<close>: whether the decode error of
    \<^verbatim>\<open>response.json()\<close> is a subclass of \<^verbatim>\<open>RequestException\<close> (it is from
    requests 2.27 on, and is a \<^verbatim>\<open>json.JSONDecodeError\<close> in either case);
  \<^item> \<open>clk\<close>: the clock.
\<close>

record env =
  urljoin :: "string \<Rightarrow> string \<Rightarrow> string"
  session_request :: "http_request \<Rightarrow> exn + response"
  json_error_is_request_exception :: bool
  clk :: clock

definition is_request_exception :: "env \<Rightarrow> exn \<Rightarrow> bool" where
  "is_request_exception e x =
     (case x of RequestException m \<Rightarrow> True
              | JSONDecodeError m \<Rightarrow> json_error_is_request_exception e
              | _ \<Rightarrow> False)"

subsection \<open>\<^verbatim>\<open>urllib.parse.urljoin\<close>\<close>

text \<open>
  The library function resolves its second argument as a URL reference against the
  first. Its first three returns are written out as the library has them: an empty
  base, an empty reference, and a reference whose scheme is not the base's or is not
  one that admits relative references (the reference is then the result, unchanged).
  The resolution proper, which follows, is the parameter \<open>resolve\<close>. The scheme is
  read as \<^verbatim>\<open>urlsplit\<close> reads it: leading control characters and spaces dropped,
  tabs and line ends removed, then the text before the first colon when it starts with
  an ASCII letter and consists of letters, digits, plus, minus and dot, in lower case.
  (The checks of \<^verbatim>\<open>urlsplit\<close> on a bracketed host, which raise, are left out.)
\<close>

definition ascii_alpha :: "char \<Rightarrow> bool" where
  "ascii_alpha c =
     ((65 \<le> (of_char c :: nat) \<and> (of_char c :: nat) \<le> 90)
      \<or> (97 \<le> (of_char c :: nat) \<and> (of_char c :: nat) \<le> 122))"

definition scheme_char :: "char \<Rightarrow> bool" where
  "scheme_char c =
     (ascii_alpha c \<or> (48 \<le> (of_char c :: nat) \<and> (of_char c :: nat) \<le> 57)
      \<or> c = CHR ''+'' \<or> c = CHR ''-'' \<or> c = CHR ''.'')"

definition ascii_lower :: "char \<Rightarrow> char" where
  "ascii_lower c =
     (if 65 \<le> (of_char c :: nat) \<and> (of_char c :: nat) \<le> 90
      then char_of ((of_char c :: nat) + 32) else c)"

definition url_scheme :: "string \<Rightarrow> string \<Rightarrow> string" where
  "url_scheme u default_scheme =
     (let cleaned = filter (\<lambda>c. c \<noteq> CHR 0x09 \<and> c \<noteq> CHR 0x0D \<and> c \<noteq> CHR 0x0A)
                      (dropWhile (\<lambda>c. (of_char c :: nat) \<le> 32) u);
          pre = takeWhile (\<lambda>c. c \<noteq> CHR '':'') cleaned
      in if length pre < length cleaned \<and> pre \<noteq> [] \<and> ascii_alpha (hd pre)
            \<and> list_all scheme_char pre
         then map ascii_lower pre
         else default_scheme)"

definition uses_relative :: "string list" where
  "uses_relative =
     [[], ''ftp'', ''http'', ''gopher'', ''nntp'', ''imap'', ''wais'', ''file'', ''https'',
      ''shttp'', ''mms'', ''prospero'', ''rtsp'', ''rtsps'', ''rtspu'', ''sftp'', ''svn'',
      ''svn+ssh'', ''ws'', ''wss'']"

definition py_urljoin :: "(string \<Rightarrow> string \<Rightarrow> string) \<Rightarrow> string \<Rightarrow> string \<Rightarrow> string" where
  "py_urljoin resolve base u =
     (if base = [] then u
      else if u = [] then base
      else (let bscheme = url_scheme base [];
                scheme = url_scheme u bscheme
            in if scheme \<noteq> bscheme \<or> scheme \<notin> set uses_relative then u
               else resolve base u))"

text \<open>\<^verbatim>\<open>str(e)\<close>\<close>

fun exn_str :: "exn \<Rightarrow> string" where
  "exn_str (RequestException m) = m"
| "exn_str (JSONDecodeError m) = m"
| "exn_str KeyError = []"
| "exn_str AttributeError = []"

text \<open>\<^verbatim>\<open>d.get(key, default)\<close> on a \<^verbatim>\<open>dict\<close>; the default is \<^verbatim>\<open>None\<close> when not given.\<close>

definition dict_get :: "pydict \<Rightarrow> string \<Rightarrow> pyval \<Rightarrow> pyval" where
  "dict_get d key dflt = (case map_of d key of None \<Rightarrow> dflt | Some v \<Rightarrow> v)"

text \<open>
  \<^verbatim>\<open>obj.get(key, default)\<close> on any decoded value: only a \<^verbatim>\<open>dict\<close> has the method,
  on the others the attribute lookup raises.
\<close>

definition py_get :: "pyval \<Rightarrow> string \<Rightarrow> pyval \<Rightarrow> exn + pyval" where
  "py_get obj key dflt =
     (case obj of
        PDict d \<Rightarrow> Inr (dict_get d key dflt)
      | _ \<Rightarrow> Inl AttributeError)"

section \<open>The client (client.py)\<close>

record MetaBaseClient =
  config :: MetaBaseConfig
  session_headers :: "(string \<times> string) list"

text \<open>
  \<^verbatim>\<open>MetaBaseClient.__init__\<close>: the mapping handed to \<^verbatim>\<open>session.headers.update\<close> is a
  dict display, the three fixed entries first and \<^verbatim>\<open>**config.headers\<close> last, so a
  caller's header replaces a fixed one of the same name. (The session's timeout
  attribute, \<^verbatim>\<open>config.timeout / 1000\<close>, is a float and is not modelled.)
\<close>

definition MetaBaseClient_init :: "MetaBaseConfig \<Rightarrow> MetaBaseClient" where
  "MetaBaseClient_init cfg =
     \<lparr> config = cfg,
       session_headers =
         foldl (\<lambda>d (k, v). dict_set k v d)
           [(''Authorization'', ''Bearer '' @ api_key cfg),
            (''Content-Type'', ''application/json''),
            (''User-Agent'', ''metabase-client-python/1.0.0'')]
           (headers cfg) \<rparr>"

subsection \<open>\<^verbatim>\<open>_handle_error\<close>\<close>

text \<open>The \<^verbatim>\<open>except (json.JSONDecodeError, KeyError)\<close> clause.\<close>

fun handle_error_catches :: "exn \<Rightarrow> bool" where
  "handle_error_catches (JSONDecodeError m) = True"
| "handle_error_catches KeyError = True"
| "handle_error_catches x = False"

definition http_code :: "response \<Rightarrow> string" where
  "http_code r = ''http_'' @ str_int (status_code r)"

text \<open>The body of the \<^verbatim>\<open>try\<close> block.\<close>

definition handle_error_try :: "env \<Rightarrow> response \<Rightarrow> exn + APIError" where
  "handle_error_try e r =
     (case response_json r of
        Inl x \<Rightarrow> Inl x
      | Inr error_data \<Rightarrow>
          (case py_get error_data ''error'' (PDict []) of
             Inl x \<Rightarrow> Inl x
           | Inr error_info \<Rightarrow>
               (case py_get error_info ''code'' (PStr (http_code r)) of
                  Inl x \<Rightarrow> Inl x
                | Inr code0 \<Rightarrow>
                    (case py_get error_info ''message'' (PStr (reason r)) of
                       Inl x \<Rightarrow> Inl x
                     | Inr message0 \<Rightarrow>
                         (case py_get error_info ''details'' PNone of
                            Inl x \<Rightarrow> Inl x
                          | Inr details0 \<Rightarrow>
                              (case py_get error_info ''timestamp'' PNone of
                                 Inl x \<Rightarrow> Inl x
                               | Inr timestamp0 \<Rightarrow>
                                   Inr (APIError_init (clk e) code0 message0 details0
                                          timestamp0)))))))"

definition handle_error :: "env \<Rightarrow> response \<Rightarrow> exn + APIError" where
  "handle_error e r =
     (case handle_error_try e r of
        Inr err \<Rightarrow> Inr err
      | Inl x \<Rightarrow>
          if handle_error_catches x
          then Inr (APIError_init (clk e) (PStr (http_code r)) (PStr (reason r)) PNone
                      (PStr (strftime_now (clk e))))
          else Inl x)"

subsection \<open>\<^verbatim>\<open>_request\<close>\<close>

text \<open>
  What a call leaves behind apart from its result: the lines printed in debug mode
  (each \<^verbatim>\<open>print\<close> as one event carrying the values it formats) and the requests
  handed to the session.
\<close>

datatype trace =
    TraceRequest string string
  | TraceData pyval
  | TraceParams pydict
  | TraceStatus int

record outcome =
  result :: "exn + APIResponse"
  stdout :: "trace list"
  sent :: "http_request list"

text \<open>Lines 118 to 133: what is made of a response that arrived.\<close>

definition classify :: "env \<Rightarrow> response \<Rightarrow> exn + APIResponse" where
  "classify e r =
     (if status_code r \<ge> 400
      then (case handle_error e r of
              Inl x \<Rightarrow> Inl x
            | Inr err \<Rightarrow> Inr (APIResponse_init PNone PNone PNone PNone PNone (Some err)))
      else (case response_json r of
              Inl x \<Rightarrow> Inl x
            | Inr response_data \<Rightarrow>
                (case response_data of
                   PDict d \<Rightarrow>
                     Inr (APIResponse_init
                            (dict_get d ''data'' PNone)
                            (dict_get d ''count'' PNone)
                            (dict_get d ''limit'' PNone)
                            (dict_get d ''offset'' PNone)
                            (dict_get d ''has_next'' PNone)
                            None)
                 | _ \<Rightarrow> Inr (APIResponse_init response_data PNone PNone PNone PNone None))))"

text \<open>The \<^verbatim>\<open>except requests.exceptions.RequestException as e\<close> clause.\<close>

definition except_request_exception :: "env \<Rightarrow> exn + APIResponse \<Rightarrow> exn + APIResponse" where
  "except_request_exception e res =
     (case res of
        Inr env \<Rightarrow> Inr env
      | Inl x \<Rightarrow>
          if is_request_exception e x
          then Inr (APIResponse_init PNone PNone PNone PNone PNone
                      (Some (APIError_init (clk e) (PStr ''network_error'') (PStr (exn_str x))
                               PNone (PStr (strftime_now (clk e))))))
          else Inl x)"

definition request ::
  "MetaBaseClient \<Rightarrow> env \<Rightarrow> string \<Rightarrow> string \<Rightarrow> pyval \<Rightarrow> pydict option \<Rightarrow> outcome" where
  "request self e method endpoint data0 params =
     (let url0 = urljoin e (url (config self) @ ''/'') (lstrip_slash endpoint);
          out1 = (if debug (config self)
                  then [TraceRequest method url0]
                       @ (if truthy data0 then [TraceData data0] else [])
                       @ (case params of
                            None \<Rightarrow> []
                          | Some ps \<Rightarrow> if ps \<noteq> [] then [TraceParams ps] else [])
                  else []);
          req = \<lparr> req_method = method, req_url = url0, req_json = data0,
                  req_params = params, req_headers = session_headers self \<rparr>
      in case session_request e req of
           Inl x \<Rightarrow>
             \<lparr> result = except_request_exception e (Inl x), stdout = out1, sent = [req] \<rparr>
         | Inr r \<Rightarrow>
             \<lparr> result = except_request_exception e (classify e r),
               stdout = out1 @ (if debug (config self) then [TraceStatus (status_code r)] else []),
               sent = [req] \<rparr>)"

subsection \<open>Health checks\<close>

definition health :: "MetaBaseClient \<Rightarrow> env \<Rightarrow> outcome" where
  "health self e = request self e ''GET'' ''/rest/health'' PNone None"

definition ping :: "MetaBaseClient \<Rightarrow> env \<Rightarrow> outcome" where
  "ping self e = request self e ''GET'' ''/ping'' PNone None"

subsection \<open>Table operations\<close>

text \<open>
  Each builder fills a \<^verbatim>\<open>params\<close> dict and hands it to \<^verbatim>\<open>_request\<close>. The part of
  \<^verbatim>\<open>query\<close> that fills the dict (lines 179 to 198) is \<open>query_params\<close>; the tests
  \<^verbatim>\<open>if options.select:\<close>, \<^verbatim>\<open>if options.limit:\<close> and the like are truth value tests.
\<close>

definition query_params :: "QueryOptions option \<Rightarrow> pydict" where
  "query_params options =
     (case options of
        None \<Rightarrow> []
      | Some opts \<Rightarrow>
          (let params = [];
               params = (if qo_select opts \<noteq> []
                         then dict_set ''select'' (PStr (join '','' (qo_select opts))) params
                         else params);
               params = (if qo_where opts \<noteq> []
                         then foldl (\<lambda>ps (key, value).
                                       if isinstance_dict_list value
                                       then dict_set key (PStr (json_dumps value)) ps
                                       else dict_set key (PStr (py_str value)) ps)
                                params (qo_where opts)
                         else params);
               params = (case qo_order opts of
                           None \<Rightarrow> params
                         | Some ord \<Rightarrow> if ord \<noteq> [] then dict_set ''order'' (PStr ord) params
                                       else params);
               params = (case qo_limit opts of
                           None \<Rightarrow> params
                         | Some n \<Rightarrow> if n \<noteq> 0 then dict_set ''limit'' (PInt n) params
                                     else params);
               params = (case qo_offset opts of
                           None \<Rightarrow> params
                         | Some n \<Rightarrow> if n \<noteq> 0 then dict_set ''offset'' (PInt n) params
                                     else params)
           in params))"

definition query :: "MetaBaseClient \<Rightarrow> env \<Rightarrow> string \<Rightarrow> QueryOptions option \<Rightarrow> outcome" where
  "query self e table options =
     request self e ''GET'' (''/rest/v1/'' @ table) PNone (Some (query_params options))"

definition get :: "MetaBaseClient \<Rightarrow> env \<Rightarrow> string \<Rightarrow> pyval \<Rightarrow> string list option \<Rightarrow> outcome" where
  "get self e table id0 select0 =
     (let params = [];
          params = (case select0 of
                      None \<Rightarrow> params
                    | Some sel \<Rightarrow> if sel \<noteq> [] then dict_set ''select'' (PStr (join '','' sel)) params
                                  else params)
      in request self e ''GET'' (''/rest/v1/'' @ table @ ''/'' @ py_str id0) PNone (Some params))"

definition insert_op ::
  "MetaBaseClient \<Rightarrow> env \<Rightarrow> string \<Rightarrow> pyval \<Rightarrow> InsertOptions option \<Rightarrow> outcome" where
  "insert_op self e table data0 options =
     (let params = [];
          params = (case options of
                      None \<Rightarrow> params
                    | Some opts \<Rightarrow>
                        if ins_returning opts \<noteq> []
                        then dict_set ''returning'' (PStr (join '','' (ins_returning opts))) params
                        else params)
      in request self e ''POST'' (''/rest/v1/'' @ table) data0 (Some params))"

text \<open>The part of \<^verbatim>\<open>update\<close> and of \<^verbatim>\<open>delete\<close> that fills the dict.\<close>

definition update_params :: "UpdateOptions option \<Rightarrow> pydict \<Rightarrow> pydict" where
  "update_params options where_conditions =
     (let params = [];
          params = foldl (\<lambda>ps (key, value).
                            if isinstance_dict_list value
                            then dict_set key (PStr (json_dumps value)) ps
                            else dict_set key (PStr (py_str value)) ps)
                     params where_conditions;
          params = (case options of
                      None \<Rightarrow> params
                    | Some opts \<Rightarrow>
                        if upd_returning opts \<noteq> []
                        then dict_set ''returning'' (PStr (join '','' (upd_returning opts))) params
                        else params)
      in params)"

definition update ::
  "MetaBaseClient \<Rightarrow> env \<Rightarrow> string \<Rightarrow> pyval \<Rightarrow> UpdateOptions option \<Rightarrow> pydict \<Rightarrow> outcome" where
  "update self e table data0 options where_conditions =
     request self e ''PATCH'' (''/rest/v1/'' @ table) data0
       (Some (update_params options where_conditions))"

definition update_one ::
  "MetaBaseClient \<Rightarrow> env \<Rightarrow> string \<Rightarrow> pyval \<Rightarrow> pyval \<Rightarrow> UpdateOptions option \<Rightarrow> outcome" where
  "update_one self e table id0 data0 options =
     (let params = [];
          params = (case options of
                      None \<Rightarrow> params
                    | Some opts \<Rightarrow>
                        if upd_returning opts \<noteq> []
                        then dict_set ''returning'' (PStr (join '','' (upd_returning opts))) params
                        else params)
      in request self e ''PATCH'' (''/rest/v1/'' @ table @ ''/'' @ py_str id0) data0 (Some params))"

definition delete_params :: "UpdateOptions option \<Rightarrow> pydict \<Rightarrow> pydict" where
  "delete_params options where_conditions =
     (let params = [];
          params = foldl (\<lambda>ps (key, value).
                            if isinstance_dict_list value
                            then dict_set key (PStr (json_dumps value)) ps
                            else dict_set key (PStr (py_str value)) ps)
                     params where_conditions;
          params = (case options of
                      None \<Rightarrow> params
                    | Some opts \<Rightarrow>
                        if upd_returning opts \<noteq> []
                        then dict_set ''returning'' (PStr (join '','' (upd_returning opts))) params
                        else params)
      in params)"

definition delete ::
  "MetaBaseClient \<Rightarrow> env \<Rightarrow> string \<Rightarrow> UpdateOptions option \<Rightarrow> pydict \<Rightarrow> outcome" where
  "delete self e table options where_conditions =
     request self e ''DELETE'' (''/rest/v1/'' @ table) PNone
       (Some (delete_params options where_conditions))"

definition delete_one ::
  "MetaBaseClient \<Rightarrow> env \<Rightarrow> string \<Rightarrow> pyval \<Rightarrow> UpdateOptions option \<Rightarrow> outcome" where
  "delete_one self e table id0 options =
     (let params = [];
          params = (case options of
                      None \<Rightarrow> params
                    | Some opts \<Rightarrow>
                        if upd_returning opts \<noteq> []
                        then dict_set ''returning'' (PStr (join '','' (upd_returning opts))) params
                        else params)
      in request self e ''DELETE'' (''/rest/v1/'' @ table @ ''/'' @ py_str id0) PNone (Some params))"

subsection \<open>Table management\<close>

definition list_tables :: "MetaBaseClient \<Rightarrow> env \<Rightarrow> outcome" where
  "list_tables self e = request self e ''GET'' ''/rest/v1'' PNone None"

definition get_table_schema :: "MetaBaseClient \<Rightarrow> env \<Rightarrow> string \<Rightarrow> outcome" where
  "get_table_schema self e table =
     request self e ''GET'' (''/rest/v1/'' @ table @ ''/schema'') PNone None"

subsection \<open>The public operations as one type\<close>

text \<open>A call of a public method with its arguments, to state a property of all of them.\<close>

datatype call =
    Health
  | Ping
  | Query string "QueryOptions option"
  | Get string pyval "string list option"
  | Insert string pyval "InsertOptions option"
  | Update string pyval "UpdateOptions option" pydict
  | UpdateOne string pyval pyval "UpdateOptions option"
  | Delete string "UpdateOptions option" pydict
  | DeleteOne string pyval "UpdateOptions option"
  | ListTables
  | GetTableSchema string

fun perform :: "MetaBaseClient \<Rightarrow> env \<Rightarrow> call \<Rightarrow> outcome" where
  "perform self e Health = health self e"
| "perform self e Ping = ping self e"
| "perform self e (Query table options) = query self e table options"
| "perform self e (Get table id0 select0) = get self e table id0 select0"
| "perform self e (Insert table data0 options) = insert_op self e table data0 options"
| "perform self e (Update table data0 options wc) = update self e table data0 options wc"
| "perform self e (UpdateOne table id0 data0 options) = update_one self e table id0 data0 options"
| "perform self e (Delete table options wc) = delete self e table options wc"
| "perform self e (DeleteOne table id0 options) = delete_one self e table id0 options"
| "perform self e ListTables = list_tables self e"
| "perform self e (GetTableSchema table) = get_table_schema self e table"

section \<open>The serialization rule for filter values\<close>

text \<open>
  The loop that \<^verbatim>\<open>query\<close> runs over \<^verbatim>\<open>options.where\<close> and that \<^verbatim>\<open>update\<close> and
  \<^verbatim>\<open>delete\<close> run over their keyword arguments, on its own: it is the same text in
  the three methods.
\<close>

definition place_filters :: "pydict \<Rightarrow> pydict \<Rightarrow> pydict" where
  "place_filters ps w =
     foldl (\<lambda>ps (key, value).
              if isinstance_dict_list value
              then dict_set key (PStr (json_dumps value)) ps
              else dict_set key (PStr (py_str value)) ps) ps w"

text \<open>
  The rule that the loop applies, by the type of the value: a \<^verbatim>\<open>dict\<close> or a
  \<^verbatim>\<open>list\<close> is written as its JSON text, any other value as its \<^verbatim>\<open>str\<close>.
\<close>

definition serialize_filter_value :: "pyval \<Rightarrow> string" where
  "serialize_filter_value v =
     (case v of
        PDict d \<Rightarrow> json_dumps v
      | PList xs \<Rightarrow> json_dumps v
      | _ \<Rightarrow> py_str v)"

text \<open>
  The rule in the words of the specification (section 4.3): a mapping or a sequence,
  of whatever type, is written as its JSON text, a scalar as its string form.
\<close>

definition specified_filter_text :: "pyval \<Rightarrow> string" where
  "specified_filter_text v =
     (case v of
        PDict d \<Rightarrow> json_dumps v
      | PList xs \<Rightarrow> json_dumps v
      | PTuple xs \<Rightarrow> json_dumps v
      | _ \<Rightarrow> py_str v)"

text \<open>
  The keys that an operation writes after its loop over the conditions: \<^verbatim>\<open>query\<close>
  writes \<^verbatim>\<open>order\<close>, \<^verbatim>\<open>limit\<close> and \<^verbatim>\<open>offset\<close> for the options that test true,
  \<^verbatim>\<open>update\<close> and \<^verbatim>\<open>delete\<close> write \<^verbatim>\<open>returning\<close> for a non-empty list.
\<close>

definition query_option_keys :: "QueryOptions \<Rightarrow> string list" where
  "query_option_keys opts =
     (case qo_order opts of None \<Rightarrow> [] | Some ord \<Rightarrow> if ord \<noteq> [] then [''order''] else [])
     @ (case qo_limit opts of None \<Rightarrow> [] | Some n \<Rightarrow> if n \<noteq> 0 then [''limit''] else [])
     @ (case qo_offset opts of None \<Rightarrow> [] | Some n \<Rightarrow> if n \<noteq> 0 then [''offset''] else [])"

definition returning_keys :: "UpdateOptions option \<Rightarrow> string list" where
  "returning_keys options =
     (case options of
        None \<Rightarrow> []
      | Some opts \<Rightarrow> if upd_returning opts \<noteq> [] then [''returning''] else [])"

section \<open>Reason phrases\<close>

text \<open>
  The standard reason phrases of some statuses (RFC 9110). The client has no such
  table: it reads the phrase that came with the response.
\<close>

definition standard_reason_phrase :: "int \<Rightarrow> string option" where
  "standard_reason_phrase status =
     map_of [(400, ''Bad Request''), (401, ''Unauthorized''), (403, ''Forbidden''),
             (404, ''Not Found''), (409, ''Conflict''), (500, ''Internal Server Error''),
             (502, ''Bad Gateway''), (503, ''Service Unavailable'')] status"

section \<open>Sample inputs\<close>

text \<open>A clock, a client and a few servers, to run the definitions on.\<close>

definition demo_clock :: clock where
  "demo_clock = \<lparr> strftime_now = ''2024-01-01T00:00:00Z'',
                   utcnow_isoformat = ''2024-01-01T00:00:00.000001'' \<rparr>"

definition demo_client :: MetaBaseClient where
  "demo_client =
     MetaBaseClient_init (MetaBaseConfig_init ''http://localhost:7609/'' ''key'' 30000 None False)"

definition unreachable_env :: env where
  "unreachable_env =
     \<lparr> urljoin = (\<lambda>base rel. base @ rel),
       session_request = (\<lambda>req. Inl (RequestException ''Connection refused'')),
       json_error_is_request_exception = True,
       clk = demo_clock \<rparr>"

text \<open>A server that gives the same answer to every request.\<close>

definition answering :: "response \<Rightarrow> env" where
  "answering r =
     \<lparr> urljoin = (\<lambda>base rel. base @ rel),
       session_request = (\<lambda>req. Inr r),
       json_error_is_request_exception = True,
       clk = demo_clock \<rparr>"

definition paged_response :: response where
  "paged_response =
     \<lparr> status_code = 200, reason = ''OK'',
       body = Inr (PDict [(''data'', PList [PInt 1, PInt 2]), (''count'', PInt 2)]) \<rparr>"

definition count_only_response :: response where
  "count_only_response =
     \<lparr> status_code = 200, reason = ''OK'', body = Inr (PDict [(''count'', PInt 5)]) \<rparr>"

definition health_response :: response where
  "health_response =
     \<lparr> status_code = 200, reason = ''OK'', body = Inr (PDict [(''status'', PStr ''healthy'')]) \<rparr>"

definition not_found_response :: response where
  "not_found_response =
     \<lparr> status_code = 404, reason = ''Not Found'',
       body = Inr (PDict [(''error'', PDict [(''message'', PStr ''not found'')])]) \<rparr>"

definition not_found_envelope :: APIResponse where
  "not_found_envelope =
     \<lparr> data = PNone, count = PNone, limit = PNone, offset = PNone, has_next = PNone,
       error = Some \<lparr> code = PStr ''http_404'', message = PStr ''not found'',
                      details = PNone,
                      timestamp = PStr ''2024-01-01T00:00:00.000001'' \<rparr> \<rparr>"

definition html_error_response :: response where
  "html_error_response =
     \<lparr> status_code = 502, reason = ''Bad Gateway'',
       body = Inl ''Expecting value: line 1 column 1 (char 0)'' \<rparr>"

definition list_error_response :: response where
  "list_error_response =
     \<lparr> status_code = 500, reason = ''Internal Server Error'', body = Inr (PList []) \<rparr>"

definition renamed_reason_response :: response where
  "renamed_reason_response =
     \<lparr> status_code = 404, reason = ''Nope'',
       body = Inr (PDict [(''error'', PDict [(''timestamp'', PStr [])])]) \<rparr>"

text \<open>The scenario of the specification's section 8.\<close>

definition scenario_options :: QueryOptions where
  "scenario_options =
     QueryOptions_init (Some [''id'', ''name'']) (Some [(''age'', PDict [(''gte'', PInt 18)])])
       None (Some 10) None None None None"

definition tuple_filters :: pydict where
  "tuple_filters = [(''ids'', PTuple [PInt 1, PInt 2])]"

text \<open>A server behind the library's \<^verbatim>\<open>urljoin\<close>.\<close>

definition library_env :: env where
  "library_env =
     \<lparr> urljoin = py_urljoin (\<lambda>base rel. base @ rel),
       session_request = (\<lambda>req. Inr health_response),
       json_error_is_request_exception = True,
       clk = demo_clock \<rparr>"

definition demo_filters :: pydict where
  "demo_filters = [(''age'', PDict [(''gte'', PInt 18)]), (''limit'', PInt 5)]"

definition demo_options :: QueryOptions where
  "demo_options =
     QueryOptions_init (Some [''id'', ''name'']) None (Some ''name'') (Some 10) None None None None"

section \<open>The request pipeline\<close>

subsection \<open>Every public operation is one call of the pipeline\<close>

lemma perform_request_args:
  "\<exists>meth endpoint d p. \<forall>self e. perform self e c = request self e meth endpoint d p"
  by (cases c)
     (auto simp: health_def ping_def query_def get_def insert_op_def update_def update_one_def
        delete_def delete_one_def list_tables_def get_table_schema_def Let_def)

lemma sent_request:
  "sent (request self e meth endpoint d p) =
     [\<lparr> req_method = meth,
        req_url = urljoin e (url (config self) @ ''/'') (lstrip_slash endpoint),
        req_json = d, req_params = p, req_headers = session_headers self \<rparr>]"
  by (simp add: request_def Let_def split: sum.splits)

lemma result_request:
  "result (request self e meth endpoint d p) =
     except_request_exception e
       (case session_request e
               \<lparr> req_method = meth,
                 req_url = urljoin e (url (config self) @ ''/'') (lstrip_slash endpoint),
                 req_json = d, req_params = p, req_headers = session_headers self \<rparr> of
          Inl x \<Rightarrow> Inl x
        | Inr r \<Rightarrow> classify e r)"
  by (simp add: request_def Let_def split: sum.splits)

lemma request_answered:
  assumes "\<forall>req \<in> set (sent (request self e meth endpoint d p)). session_request e req = Inr r"
  shows "result (request self e meth endpoint d p) = except_request_exception e (classify e r)"
  using assms by (simp add: sent_request result_request)

lemma perform_answered:
  assumes "\<forall>req \<in> set (sent (perform self e c)). session_request e req = Inr r"
  shows "result (perform self e c) = except_request_exception e (classify e r)"
proof -
  obtain meth endpoint d p
    where eq: "perform self e c = request self e meth endpoint d p"
    using perform_request_args by blast
  show ?thesis
    using assms request_answered [of self e meth endpoint d p r] by (simp add: eq)
qed

subsection \<open>Transport failures\<close>

lemma request_transport_failure:
  assumes "\<forall>req \<in> set (sent (request self e meth endpoint d p)).
             session_request e req = Inl (RequestException msg)"
    and "strftime_now (clk e) \<noteq> []"
  shows "result (request self e meth endpoint d p) =
           Inr \<lparr> data = PNone, count = PNone, limit = PNone, offset = PNone, has_next = PNone,
                 error = Some \<lparr> code = PStr ''network_error'', message = PStr msg,
                                details = PNone,
                                timestamp = PStr (strftime_now (clk e)) \<rparr> \<rparr>"
  using assms
  by (simp add: sent_request result_request except_request_exception_def
        is_request_exception_def APIResponse_init_def APIError_init_def)

text \<open>
  C5: when the transport fails (the session raises a \<^verbatim>\<open>RequestException\<close>: connection
  refused, DNS failure, timeout) on the request that a public operation sends, whichever
  operation it is, the envelope returned has the error code \<^verbatim>\<open>network_error\<close>, the
  description of the failure as message, the current time as timestamp, and neither
  data nor pagination fields. (The formatted time is never the empty string.)
\<close>

theorem transport_failure_is_network_error:
  assumes "\<forall>req \<in> set (sent (perform self e c)).
             session_request e req = Inl (RequestException msg)"
    and "strftime_now (clk e) \<noteq> []"
  shows "result (perform self e c) =
           Inr \<lparr> data = PNone, count = PNone, limit = PNone, offset = PNone, has_next = PNone,
                 error = Some \<lparr> code = PStr ''network_error'', message = PStr msg,
                                details = PNone,
                                timestamp = PStr (strftime_now (clk e)) \<rparr> \<rparr>"
proof -
  obtain meth endpoint d p
    where eq: "perform self e c = request self e meth endpoint d p"
    using perform_request_args by blast
  show ?thesis
    using assms request_transport_failure [of self e meth endpoint d p msg]
    by (simp add: eq)
qed

theorem transport_failure_is_network_error_witness:
  "map (session_request unreachable_env)
       (sent (perform demo_client unreachable_env (Query ''users'' None))) =
     [Inl (RequestException ''Connection refused'')]
   \<and> strftime_now (clk unreachable_env) \<noteq> []
   \<and> result (perform demo_client unreachable_env (Query ''users'' None)) =
       Inr \<lparr> data = PNone, count = PNone, limit = PNone, offset = PNone, has_next = PNone,
             error = Some \<lparr> code = PStr ''network_error'', message = PStr ''Connection refused'',
                            details = PNone,
                            timestamp = PStr ''2024-01-01T00:00:00Z'' \<rparr> \<rparr>"
proof -
  have h1: "\<forall>req \<in> set (sent (perform demo_client unreachable_env (Query ''users'' None))).
      session_request unreachable_env req = Inl (RequestException ''Connection refused'')"
    by (simp add: unreachable_env_def)
  have h2: "strftime_now (clk unreachable_env) \<noteq> []"
    by (simp add: unreachable_env_def demo_clock_def)
  have h3: "map (session_request unreachable_env)
       (sent (perform demo_client unreachable_env (Query ''users'' None))) =
     [Inl (RequestException ''Connection refused'')]"
    by (simp add: unreachable_env_def query_def sent_request)
  show ?thesis
    using h2 h3 transport_failure_is_network_error [OF h1 h2]
    by (simp add: unreachable_env_def demo_clock_def)
qed

subsection \<open>Successful responses\<close>

lemma classify_success:
  assumes "status_code r < 400" and "body r = Inr v"
  shows "classify e r =
           Inr (case v of
                  PDict d \<Rightarrow>
                    \<lparr> data = dict_get d ''data'' PNone,
                      count = dict_get d ''count'' PNone,
                      limit = dict_get d ''limit'' PNone,
                      offset = dict_get d ''offset'' PNone,
                      has_next = dict_get d ''has_next'' PNone,
                      error = None \<rparr>
                | _ \<Rightarrow>
                    \<lparr> data = v, count = PNone, limit = PNone, offset = PNone,
                      has_next = PNone, error = None \<rparr>)"
  using assms
  by (simp add: classify_def response_json_def APIResponse_init_def split: pyval.splits)

text \<open>
  C1, as the code has it: for a response with a status below 400 whose body decodes,
  a body that is a mapping, with or without a \<^verbatim>\<open>data\<close> key, gives an envelope whose
  data is the mapping's \<^verbatim>\<open>data\<close> value (\<^verbatim>\<open>None\<close> when the key is missing) and whose
  count, limit, offset and has_next are read from the same mapping when present; a body
  of any other shape is the data as a whole, with no pagination field.
\<close>

theorem success_envelope:
  assumes "\<forall>req \<in> set (sent (perform self e c)). session_request e req = Inr r"
    and "status_code r < 400"
    and "body r = Inr v"
  shows "result (perform self e c) =
           Inr (case v of
                  PDict d \<Rightarrow>
                    \<lparr> data = dict_get d ''data'' PNone,
                      count = dict_get d ''count'' PNone,
                      limit = dict_get d ''limit'' PNone,
                      offset = dict_get d ''offset'' PNone,
                      has_next = dict_get d ''has_next'' PNone,
                      error = None \<rparr>
                | _ \<Rightarrow>
                    \<lparr> data = v, count = PNone, limit = PNone, offset = PNone,
                      has_next = PNone, error = None \<rparr>)"
  using perform_answered [OF assms(1)] classify_success [OF assms(2) assms(3), of e]
  by (simp add: except_request_exception_def)

theorem success_envelope_witness:
  "map (session_request (answering paged_response))
       (sent (perform demo_client (answering paged_response) (Query ''users'' None))) =
     [Inr paged_response]
   \<and> status_code paged_response < 400
   \<and> result (perform demo_client (answering paged_response) (Query ''users'' None)) =
       Inr \<lparr> data = PList [PInt 1, PInt 2], count = PInt 2, limit = PNone, offset = PNone,
             has_next = PNone, error = None \<rparr>"
proof -
  have h1: "\<forall>req \<in> set (sent (perform demo_client (answering paged_response)
                                  (Query ''users'' None))).
              session_request (answering paged_response) req = Inr paged_response"
    by (simp add: answering_def)
  have h2: "status_code paged_response < 400"
    by (simp add: paged_response_def)
  have h3: "body paged_response =
              Inr (PDict [(''data'', PList [PInt 1, PInt 2]), (''count'', PInt 2)])"
    by (simp add: paged_response_def)
  have h4: "map (session_request (answering paged_response))
       (sent (perform demo_client (answering paged_response) (Query ''users'' None))) =
     [Inr paged_response]"
    by (simp add: answering_def query_def sent_request)
  show ?thesis
    using h2 h4 success_envelope [OF h1 h2 h3]
    by (simp add: dict_get_def)
qed

text \<open>
  C1 as stated fails on a mapping without a \<^verbatim>\<open>data\<close> key: the body
  \<^verbatim>\<open>{"count": 5}\<close> does not become the data, and its count is read.
\<close>

theorem mapping_without_data_counterexample:
  "body count_only_response = Inr (PDict [(''count'', PInt 5)])
   \<and> status_code count_only_response = 200
   \<and> result (perform demo_client (answering count_only_response) (Query ''users'' None)) =
       Inr \<lparr> data = PNone, count = PInt 5, limit = PNone, offset = PNone,
             has_next = PNone, error = None \<rparr>"
  by (simp add: query_def result_request answering_def count_only_response_def classify_def
        response_json_def APIResponse_init_def dict_get_def except_request_exception_def)

subsection \<open>Data and error in one envelope\<close>

lemma classify_error_no_data:
  assumes "classify e r = Inr env" and "error env \<noteq> None"
  shows "data env = PNone \<and> count env = PNone \<and> limit env = PNone \<and> offset env = PNone
         \<and> has_next env = PNone"
  using assms
  by (auto simp: classify_def APIResponse_init_def split: if_splits sum.splits pyval.splits)

lemma except_error_no_data:
  assumes "except_request_exception e res = Inr env" and "error env \<noteq> None"
    and "\<And>env'. res = Inr env' \<Longrightarrow> error env' \<noteq> None \<Longrightarrow>
           data env' = PNone \<and> count env' = PNone \<and> limit env' = PNone \<and> offset env' = PNone
           \<and> has_next env' = PNone"
  shows "data env = PNone \<and> count env = PNone \<and> limit env = PNone \<and> offset env = PNone
         \<and> has_next env = PNone"
  using assms
  by (cases res) (auto simp: except_request_exception_def APIResponse_init_def split: if_splits)

text \<open>
  C2, as the code has it: in the envelope that a public operation returns, data and
  error are never both populated: an envelope with an error has no data and no
  pagination field. (Both can be absent, and \<^verbatim>\<open>APIResponse.__init__\<close> stores whatever
  it is given.)
\<close>

theorem error_excludes_data:
  assumes "result (perform self e c) = Inr env" and "error env \<noteq> None"
  shows "data env = PNone \<and> count env = PNone \<and> limit env = PNone \<and> offset env = PNone
         \<and> has_next env = PNone"
proof -
  obtain meth endpoint d p
    where eq: "perform self e c = request self e meth endpoint d p"
    using perform_request_args by blast
  let ?req = "\<lparr> req_method = meth,
                 req_url = urljoin e (url (config self) @ ''/'') (lstrip_slash endpoint),
                 req_json = d, req_params = p, req_headers = session_headers self \<rparr>"
  let ?res = "case session_request e ?req of Inl x \<Rightarrow> Inl x | Inr r \<Rightarrow> classify e r"
  have res: "except_request_exception e ?res = Inr env"
    using assms(1) by (simp add: eq result_request)
  show ?thesis
  proof (rule except_error_no_data [OF res assms(2)])
    fix env'
    assume "?res = Inr env'" and "error env' \<noteq> None"
    then show "data env' = PNone \<and> count env' = PNone \<and> limit env' = PNone
               \<and> offset env' = PNone \<and> has_next env' = PNone"
      by (cases "session_request e ?req") (auto dest: classify_error_no_data)
  qed
qed

lemma not_found_result:
  "result (perform demo_client (answering not_found_response) (Get ''users'' (PInt 7) None)) =
     Inr not_found_envelope"
  by (simp add: get_def result_request answering_def not_found_response_def classify_def
        handle_error_def handle_error_try_def py_get_def http_code_def str_int_def
        response_json_def APIResponse_init_def APIError_init_def dict_get_def
        except_request_exception_def not_found_envelope_def demo_clock_def)

theorem error_excludes_data_witness:
  "result (perform demo_client (answering not_found_response) (Get ''users'' (PInt 7) None)) =
     Inr not_found_envelope
   \<and> error not_found_envelope \<noteq> None
   \<and> data not_found_envelope = PNone \<and> count not_found_envelope = PNone
   \<and> limit not_found_envelope = PNone \<and> offset not_found_envelope = PNone
   \<and> has_next not_found_envelope = PNone"
proof -
  have h2: "error not_found_envelope \<noteq> None"
    by (simp add: not_found_envelope_def)
  show ?thesis
    using not_found_result h2 error_excludes_data [OF not_found_result h2] by simp
qed

text \<open>
  C2 as stated fails: a successful answer whose body is a mapping without a
  \<^verbatim>\<open>data\<close> key gives an envelope with neither data nor error.
\<close>

theorem neither_data_nor_error_counterexample:
  "result (perform demo_client (answering health_response) Health) =
     Inr \<lparr> data = PNone, count = PNone, limit = PNone, offset = PNone,
           has_next = PNone, error = None \<rparr>"
  by (simp add: health_def result_request answering_def health_response_def classify_def
        response_json_def APIResponse_init_def dict_get_def except_request_exception_def)

subsection \<open>Error responses\<close>

text \<open>
  C3: an answer with status 500 whose body is the JSON list \<^verbatim>\<open>[]\<close>. The
  \<^verbatim>\<open>.get\<close> of \<^verbatim>\<open>_handle_error\<close> raises \<^verbatim>\<open>AttributeError\<close>, which neither
  \<^verbatim>\<open>except\<close> clause catches: the exception leaves the pipeline.
\<close>

theorem error_status_with_list_body_raises:
  "result (perform demo_client (answering list_error_response) Health) = Inl AttributeError"
  by (simp add: health_def result_request answering_def list_error_response_def classify_def
        handle_error_def handle_error_try_def py_get_def response_json_def
        except_request_exception_def is_request_exception_def)

lemma handle_error_structured:
  assumes "body r = Inr (PDict d)" and "map_of d ''error'' = Some (PDict info)"
  shows "handle_error e r =
           Inr \<lparr> code = dict_get info ''code'' (PStr (''http_'' @ str_int (status_code r))),
                 message = dict_get info ''message'' (PStr (reason r)),
                 details = dict_get info ''details'' PNone,
                 timestamp =
                   (if truthy (dict_get info ''timestamp'' PNone)
                    then dict_get info ''timestamp'' PNone
                    else PStr (utcnow_isoformat (clk e))) \<rparr>"
  using assms
  by (simp add: handle_error_def handle_error_try_def response_json_def py_get_def
        dict_get_def http_code_def APIError_init_def)

lemma handle_error_unparsable:
  assumes "body r = Inl m" and "strftime_now (clk e) \<noteq> []"
  shows "handle_error e r =
           Inr \<lparr> code = PStr (''http_'' @ str_int (status_code r)),
                 message = PStr (reason r),
                 details = PNone,
                 timestamp = PStr (strftime_now (clk e)) \<rparr>"
  using assms
  by (simp add: handle_error_def handle_error_try_def response_json_def http_code_def
        APIError_init_def)

lemma perform_error_status:
  assumes "\<forall>req \<in> set (sent (perform self e c)). session_request e req = Inr r"
    and "400 \<le> status_code r"
    and "handle_error e r = Inr err"
  shows "result (perform self e c) =
           Inr \<lparr> data = PNone, count = PNone, limit = PNone, offset = PNone,
                 has_next = PNone, error = Some err \<rparr>"
  using perform_answered [OF assms(1)] assms(2,3)
  by (simp add: classify_def except_request_exception_def APIResponse_init_def)

text \<open>
  C4, as the code has it: for a response with status 400 or more, whichever operation
  received it. When the body is a mapping whose \<^verbatim>\<open>error\<close> entry is a mapping, code,
  message and details are taken from that entry, an absent one being
  \<^verbatim>\<open>http_<status>\<close>, the reason phrase that came with the response, and \<^verbatim>\<open>None\<close>;
  the timestamp is the entry's when it is present and true in a truth value test, and
  the current time otherwise. When the body is not JSON, the error is
  \<^verbatim>\<open>http_<status>\<close>, the reason phrase that came with the response, no details and
  the current time.
\<close>

theorem error_response_fields:
  assumes "\<forall>req \<in> set (sent (perform self e c)). session_request e req = Inr r"
    and "400 \<le> status_code r"
  shows "(body r = Inr (PDict d) \<and> map_of d ''error'' = Some (PDict info) \<longrightarrow>
            result (perform self e c) =
              Inr \<lparr> data = PNone, count = PNone, limit = PNone, offset = PNone,
                    has_next = PNone,
                    error = Some
                      \<lparr> code = dict_get info ''code''
                                 (PStr (''http_'' @ str_int (status_code r))),
                        message = dict_get info ''message'' (PStr (reason r)),
                        details = dict_get info ''details'' PNone,
                        timestamp =
                          (if truthy (dict_get info ''timestamp'' PNone)
                           then dict_get info ''timestamp'' PNone
                           else PStr (utcnow_isoformat (clk e))) \<rparr> \<rparr>)
       \<and> (body r = Inl m \<and> strftime_now (clk e) \<noteq> [] \<longrightarrow>
            result (perform self e c) =
              Inr \<lparr> data = PNone, count = PNone, limit = PNone, offset = PNone,
                    has_next = PNone,
                    error = Some
                      \<lparr> code = PStr (''http_'' @ str_int (status_code r)),
                        message = PStr (reason r),
                        details = PNone,
                        timestamp = PStr (strftime_now (clk e)) \<rparr> \<rparr>)"
proof (intro conjI impI)
  assume "body r = Inr (PDict d) \<and> map_of d ''error'' = Some (PDict info)"
  then have "handle_error e r =
           Inr \<lparr> code = dict_get info ''code'' (PStr (''http_'' @ str_int (status_code r))),
                 message = dict_get info ''message'' (PStr (reason r)),
                 details = dict_get info ''details'' PNone,
                 timestamp =
                   (if truthy (dict_get info ''timestamp'' PNone)
                    then dict_get info ''timestamp'' PNone
                    else PStr (utcnow_isoformat (clk e))) \<rparr>"
    using handle_error_structured [of r d info e] by simp
  then show "result (perform self e c) =
              Inr \<lparr> data = PNone, count = PNone, limit = PNone, offset = PNone,
                    has_next = PNone,
                    error = Some
                      \<lparr> code = dict_get info ''code''
                                 (PStr (''http_'' @ str_int (status_code r))),
                        message = dict_get info ''message'' (PStr (reason r)),
                        details = dict_get info ''details'' PNone,
                        timestamp =
                          (if truthy (dict_get info ''timestamp'' PNone)
                           then dict_get info ''timestamp'' PNone
                           else PStr (utcnow_isoformat (clk e))) \<rparr> \<rparr>"
    by (rule perform_error_status [OF assms])
next
  assume "body r = Inl m \<and> strftime_now (clk e) \<noteq> []"
  then have "handle_error e r =
           Inr \<lparr> code = PStr (''http_'' @ str_int (status_code r)),
                 message = PStr (reason r),
                 details = PNone,
                 timestamp = PStr (strftime_now (clk e)) \<rparr>"
    using handle_error_unparsable [of r m e] by simp
  then show "result (perform self e c) =
              Inr \<lparr> data = PNone, count = PNone, limit = PNone, offset = PNone,
                    has_next = PNone,
                    error = Some
                      \<lparr> code = PStr (''http_'' @ str_int (status_code r)),
                        message = PStr (reason r),
                        details = PNone,
                        timestamp = PStr (strftime_now (clk e)) \<rparr> \<rparr>"
    by (rule perform_error_status [OF assms])
qed

theorem error_response_fields_witness:
  "map (session_request (answering not_found_response))
       (sent (perform demo_client (answering not_found_response) Ping)) =
     [Inr not_found_response]
   \<and> 400 \<le> status_code not_found_response
   \<and> result (perform demo_client (answering not_found_response) Ping) =
       Inr \<lparr> data = PNone, count = PNone, limit = PNone, offset = PNone, has_next = PNone,
             error = Some \<lparr> code = PStr ''http_404'', message = PStr ''not found'',
                            details = PNone,
                            timestamp = PStr ''2024-01-01T00:00:00.000001'' \<rparr> \<rparr>
   \<and> map (session_request (answering html_error_response))
       (sent (perform demo_client (answering html_error_response) Ping)) =
     [Inr html_error_response]
   \<and> 400 \<le> status_code html_error_response
   \<and> result (perform demo_client (answering html_error_response) Ping) =
       Inr \<lparr> data = PNone, count = PNone, limit = PNone, offset = PNone, has_next = PNone,
             error = Some \<lparr> code = PStr ''http_502'', message = PStr ''Bad Gateway'',
                            details = PNone,
                            timestamp = PStr ''2024-01-01T00:00:00Z'' \<rparr> \<rparr>"
proof -
  have a1: "\<forall>req \<in> set (sent (perform demo_client (answering not_found_response) Ping)).
              session_request (answering not_found_response) req = Inr not_found_response"
    by (simp add: answering_def)
  have a2: "400 \<le> status_code not_found_response"
    by (simp add: not_found_response_def)
  have a3: "body not_found_response =
              Inr (PDict [(''error'', PDict [(''message'', PStr ''not found'')])])
            \<and> map_of [(''error'', PDict [(''message'', PStr ''not found'')])] ''error'' =
              Some (PDict [(''message'', PStr ''not found'')])"
    by (simp add: not_found_response_def)
  have a4: "map (session_request (answering not_found_response))
       (sent (perform demo_client (answering not_found_response) Ping)) =
     [Inr not_found_response]"
    by (simp add: answering_def ping_def sent_request)
  have b1: "\<forall>req \<in> set (sent (perform demo_client (answering html_error_response) Ping)).
              session_request (answering html_error_response) req = Inr html_error_response"
    by (simp add: answering_def)
  have b2: "400 \<le> status_code html_error_response"
    by (simp add: html_error_response_def)
  have b3: "body html_error_response = Inl ''Expecting value: line 1 column 1 (char 0)''
            \<and> strftime_now (clk (answering html_error_response)) \<noteq> []"
    by (simp add: html_error_response_def answering_def demo_clock_def)
  have c1: "result (perform demo_client (answering not_found_response) Ping) =
       Inr \<lparr> data = PNone, count = PNone, limit = PNone, offset = PNone, has_next = PNone,
             error = Some \<lparr> code = PStr ''http_404'', message = PStr ''not found'',
                            details = PNone,
                            timestamp = PStr ''2024-01-01T00:00:00.000001'' \<rparr> \<rparr>"
    using a3 error_response_fields [OF a1 a2,
        of "[(''error'', PDict [(''message'', PStr ''not found'')])]"
           "[(''message'', PStr ''not found'')]" "[]"]
    by (simp add: dict_get_def not_found_response_def answering_def demo_clock_def str_int_def)
  have c2: "result (perform demo_client (answering html_error_response) Ping) =
       Inr \<lparr> data = PNone, count = PNone, limit = PNone, offset = PNone, has_next = PNone,
             error = Some \<lparr> code = PStr ''http_502'', message = PStr ''Bad Gateway'',
                            details = PNone,
                            timestamp = PStr ''2024-01-01T00:00:00Z'' \<rparr> \<rparr>"
    using b3 error_response_fields [OF b1 b2,
        of "[]" "[]" "''Expecting value: line 1 column 1 (char 0)''"]
    by (simp add: html_error_response_def answering_def demo_clock_def str_int_def)
  show ?thesis
    using a2 a4 b2 c1 c2 by (simp add: answering_def ping_def sent_request)
qed

text \<open>
  C4 as stated fails twice on a 404 response whose reason phrase is \<^verbatim>\<open>Nope\<close> and
  whose body is \<^verbatim>\<open>{"error": {"timestamp": ""}}\<close>: the message is the phrase that
  came with the response, not the standard phrase of the status, and the timestamp,
  present and empty, is not taken from the mapping: the current time replaces it.
\<close>

theorem error_fields_counterexample:
  "standard_reason_phrase 404 = Some ''Not Found''
   \<and> status_code renamed_reason_response = 404
   \<and> body renamed_reason_response =
       Inr (PDict [(''error'', PDict [(''timestamp'', PStr [])])])
   \<and> result (perform demo_client (answering renamed_reason_response) Ping) =
       Inr \<lparr> data = PNone, count = PNone, limit = PNone, offset = PNone, has_next = PNone,
             error = Some \<lparr> code = PStr ''http_404'', message = PStr ''Nope'',
                            details = PNone,
                            timestamp = PStr ''2024-01-01T00:00:00.000001'' \<rparr> \<rparr>"
  by (simp add: ping_def result_request answering_def renamed_reason_response_def classify_def
        handle_error_def handle_error_try_def py_get_def http_code_def str_int_def
        response_json_def APIResponse_init_def APIError_init_def dict_get_def
        except_request_exception_def demo_clock_def standard_reason_phrase_def)

subsection \<open>Debug mode\<close>




subsection \<open>The request URL\<close>

lemma rstrip_slash_snoc: "rstrip_slash (b @ ''/'') = rstrip_slash b"
  by (simp add: rstrip_slash_def)

lemma lstrip_slash_cons: "lstrip_slash (''/'' @ ep) = lstrip_slash ep"
  by (simp add: lstrip_slash_def)

lemma rstrip_slash_no_trailing: "rstrip_slash b \<noteq> x @ ''/''"
proof
  assume "rstrip_slash b = x @ ''/''"
  then have "dropWhile (\<lambda>c. c = CHR ''/'') (rev b) = CHR ''/'' # rev x"
    by (simp add: rstrip_slash_def rev_swap)
  then show False
    using hd_dropWhile [of "\<lambda>c. c = CHR ''/''" "rev b"] by simp
qed

lemma lstrip_slash_no_leading: "lstrip_slash ep \<noteq> ''/'' @ y"
proof
  assume "lstrip_slash ep = ''/'' @ y"
  then show False
    using hd_dropWhile [of "\<lambda>c. c = CHR ''/''" ep] by (simp add: lstrip_slash_def)
qed

lemma url_of_init:
  "url (config (MetaBaseClient_init (MetaBaseConfig_init u k t h dbg))) = rstrip_slash u"
  by (simp add: MetaBaseClient_init_def MetaBaseConfig_init_def)

lemma all_slashes:
  "\<forall>c \<in> set xs. c = CHR ''/'' \<Longrightarrow> xs = replicate (length xs) CHR ''/''"
  by (induction xs) auto

lemma lstrip_slash_split:
  "ep = replicate (length ep - length (lstrip_slash ep)) CHR ''/'' @ lstrip_slash ep"
proof -
  let ?P = "\<lambda>c. c = CHR ''/''"
  have len: "length ep - length (dropWhile ?P ep) = length (takeWhile ?P ep)"
    using takeWhile_dropWhile_id [of ?P ep]
    by (metis add_diff_cancel_right' length_append)
  have "\<forall>c \<in> set (takeWhile ?P ep). c = CHR ''/''"
    by (auto dest: set_takeWhileD)
  then have "takeWhile ?P ep = replicate (length (takeWhile ?P ep)) CHR ''/''"
    by (rule all_slashes)
  then show ?thesis
    using takeWhile_dropWhile_id [of ?P ep] by (simp add: lstrip_slash_def len)
qed

lemma rstrip_slash_split:
  "b = rstrip_slash b @ replicate (length b - length (rstrip_slash b)) CHR ''/''"
proof -
  have "rev b = replicate (length (rev b) - length (lstrip_slash (rev b))) CHR ''/''
                @ lstrip_slash (rev b)"
    by (rule lstrip_slash_split)
  then have "rev (rev b) =
               rev (replicate (length (rev b) - length (lstrip_slash (rev b))) CHR ''/''
                    @ lstrip_slash (rev b))"
    by simp
  then show ?thesis
    by (simp add: rstrip_slash_def lstrip_slash_def)
qed

text \<open>
  C8, as the code has it: for every base URL \<open>b\<close> and endpoint \<open>ep\<close>, the base given
  as \<open>b\<close> or with one more slash at its end, and the endpoint given as \<open>ep\<close> or with
  one more slash at its start, the four requests have the same URL: what \<^verbatim>\<open>urljoin\<close>
  makes of the base without its trailing slashes followed by one slash, and of the
  endpoint without its leading slashes. The stripped base is \<open>b\<close> less the slashes at
  its end and does not end with a slash, the stripped endpoint is \<open>ep\<close> less the
  slashes at its start and does not start with one, so exactly one slash stands between
  them in what is handed to \<^verbatim>\<open>urljoin\<close>.
\<close>

theorem url_independent_of_slashes:
  "map req_url (sent (request (MetaBaseClient_init (MetaBaseConfig_init b k t h dbg)) e
                        meth ep d p)) =
     [urljoin e (rstrip_slash b @ ''/'') (lstrip_slash ep)]
   \<and> map req_url (sent (request (MetaBaseClient_init (MetaBaseConfig_init b k t h dbg)) e
                          meth (''/'' @ ep) d p)) =
     [urljoin e (rstrip_slash b @ ''/'') (lstrip_slash ep)]
   \<and> map req_url (sent (request (MetaBaseClient_init (MetaBaseConfig_init (b @ ''/'') k t h dbg))
                          e meth ep d p)) =
     [urljoin e (rstrip_slash b @ ''/'') (lstrip_slash ep)]
   \<and> map req_url (sent (request (MetaBaseClient_init (MetaBaseConfig_init (b @ ''/'') k t h dbg))
                          e meth (''/'' @ ep) d p)) =
     [urljoin e (rstrip_slash b @ ''/'') (lstrip_slash ep)]
   \<and> b = rstrip_slash b @ replicate (length b - length (rstrip_slash b)) CHR ''/''
   \<and> ep = replicate (length ep - length (lstrip_slash ep)) CHR ''/'' @ lstrip_slash ep
   \<and> (\<forall>x. rstrip_slash b \<noteq> x @ ''/'')
   \<and> (\<forall>y. lstrip_slash ep \<noteq> ''/'' @ y)"
proof -
  have urls:
    "map req_url (sent (request (MetaBaseClient_init (MetaBaseConfig_init b k t h dbg)) e
                        meth ep d p)) =
       [urljoin e (rstrip_slash b @ ''/'') (lstrip_slash ep)]"
    "map req_url (sent (request (MetaBaseClient_init (MetaBaseConfig_init b k t h dbg)) e
                          meth (''/'' @ ep) d p)) =
       [urljoin e (rstrip_slash b @ ''/'') (lstrip_slash ep)]"
    "map req_url (sent (request (MetaBaseClient_init (MetaBaseConfig_init (b @ ''/'') k t h dbg))
                          e meth ep d p)) =
       [urljoin e (rstrip_slash b @ ''/'') (lstrip_slash ep)]"
    "map req_url (sent (request (MetaBaseClient_init (MetaBaseConfig_init (b @ ''/'') k t h dbg))
                          e meth (''/'' @ ep) d p)) =
       [urljoin e (rstrip_slash b @ ''/'') (lstrip_slash ep)]"
    by (simp_all add: sent_request url_of_init rstrip_slash_snoc lstrip_slash_cons
          del: append.simps)
  show ?thesis
    using urls rstrip_slash_split [of b] lstrip_slash_split [of ep]
      rstrip_slash_no_trailing [of b] lstrip_slash_no_leading [of ep]
    by blast
qed

text \<open>
  C8 as stated fails on the URL itself, which is not always the base, one slash and
  the endpoint: \<^verbatim>\<open>urljoin\<close> resolves the endpoint as a URL reference, and an endpoint
  with a scheme of its own takes the place of the base.
\<close>

theorem absolute_endpoint_counterexample:
  "map req_url
     (sent (request (MetaBaseClient_init
                       (MetaBaseConfig_init ''http://localhost:7609'' ''key'' 30000 None False))
              library_env ''GET'' ''https://evil.example/x'' PNone None)) =
     [''https://evil.example/x'']
   \<and> ''https://evil.example/x'' \<noteq> ''http://localhost:7609'' @ ''/'' @ ''https://evil.example/x''"
  by (simp add: sent_request url_of_init library_env_def rstrip_slash_def lstrip_slash_def
        py_urljoin_def url_scheme_def Let_def ascii_alpha_def scheme_char_def ascii_lower_def
        uses_relative_def)

section \<open>The table builders\<close>

text \<open>
  C6, as the code has it:
  \<^verbatim>\<open>query("users", QueryOptions(select=["id","name"], where={"age": {"gte": 18}}, limit=10))\<close>
  sends one request: verb GET, endpoint \<^verbatim>\<open>rest/v1/users\<close> joined to the base URL, no
  body, and the parameters select = \<^verbatim>\<open>id,name\<close>, age = the JSON text of the
  condition as \<^verbatim>\<open>json.dumps\<close> writes it, \<^verbatim>\<open>{"gte": 18}\<close> with a space after the
  colon, and limit = 10, in this order.
\<close>

theorem query_scenario_request:
  "sent (query self e ''users''
           (Some (QueryOptions_init (Some [''id'', ''name''])
                    (Some [(''age'', PDict [(''gte'', PInt 18)])])
                    None (Some 10) None None None None))) =
     [\<lparr> req_method = ''GET'',
        req_url = urljoin e (url (config self) @ ''/'') ''rest/v1/users'',
        req_json = PNone,
        req_params = Some [(''select'', PStr ''id,name''),
                           (''age'', PStr (json_dumps (PDict [(''gte'', PInt 18)]))),
                           (''limit'', PInt 10)],
        req_headers = session_headers self \<rparr>]
   \<and> json_dumps (PDict [(''gte'', PInt 18)]) =
       [CHR ''{'', CHR 0x22, CHR ''g'', CHR ''t'', CHR ''e'', CHR 0x22, CHR '':'', CHR '' '',
        CHR ''1'', CHR ''8'', CHR ''}'']"
  by (simp add: query_def sent_request query_params_def QueryOptions_init_def lstrip_slash_def
        str_int_def json_string_def json_escape_char_def)

text \<open>
  C6 as stated fails on the text of the age parameter: the code sends
  \<^verbatim>\<open>{"gte": 18}\<close>, which is not the \<^verbatim>\<open>{"gte":18}\<close> of the claim.
\<close>

theorem compact_json_counterexample:
  "map req_params
     (sent (query demo_client (answering health_response) ''users'' (Some scenario_options))) =
     [Some [(''select'', PStr ''id,name''),
            (''age'', PStr [CHR ''{'', CHR 0x22, CHR ''g'', CHR ''t'', CHR ''e'', CHR 0x22,
                            CHR '':'', CHR '' '', CHR ''1'', CHR ''8'', CHR ''}'']),
            (''limit'', PInt 10)]]
   \<and> [CHR ''{'', CHR 0x22, CHR ''g'', CHR ''t'', CHR ''e'', CHR 0x22, CHR '':'', CHR '' '',
       CHR ''1'', CHR ''8'', CHR ''}''] \<noteq>
      [CHR ''{'', CHR 0x22, CHR ''g'', CHR ''t'', CHR ''e'', CHR 0x22, CHR '':'',
       CHR ''1'', CHR ''8'', CHR ''}'']"
  by (simp add: query_def sent_request query_params_def scenario_options_def
        QueryOptions_init_def str_int_def json_string_def json_escape_char_def)

subsection \<open>Filter values\<close>

lemma map_of_dict_set:
  "map_of (dict_set k v d) k' = (if k' = k then Some v else map_of d k')"
  by (induction d) auto

lemma filter_step:
  "(if isinstance_dict_list value
    then dict_set key (PStr (json_dumps value)) ps
    else dict_set key (PStr (py_str value)) ps) =
   dict_set key (PStr (serialize_filter_value value)) ps"
  by (cases "value") (simp_all add: serialize_filter_value_def)

lemma place_filters_Nil: "place_filters ps [] = ps"
  by (simp add: place_filters_def)

lemma place_filters_Cons:
  "place_filters ps ((key, value) # w) =
     place_filters (dict_set key (PStr (serialize_filter_value value)) ps) w"
  by (simp add: place_filters_def filter_step)

lemma place_filters_other:
  "k \<notin> set (map fst w) \<Longrightarrow> map_of (place_filters ps w) k = map_of ps k"
proof (induction w arbitrary: ps)
  case Nil
  then show ?case by (simp add: place_filters_Nil)
next
  case (Cons kv w)
  obtain key "value" where kv: "kv = (key, value)" by (cases kv)
  from Cons.prems have "k \<noteq> key" and "k \<notin> set (map fst w)"
    by (auto simp: kv)
  then show ?case
    using Cons.IH [of "dict_set key (PStr (serialize_filter_value value)) ps"]
    by (simp add: kv place_filters_Cons map_of_dict_set)
qed

lemma place_filters_absent:
  "map_of w k = None \<Longrightarrow> map_of (place_filters ps w) k = map_of ps k"
  by (rule place_filters_other) (simp add: map_of_eq_None_iff)

lemma place_filters_lookup:
  "distinct (map fst w) \<Longrightarrow> (k, v) \<in> set w \<Longrightarrow>
   map_of (place_filters ps w) k = Some (PStr (serialize_filter_value v))"
proof (induction w arbitrary: ps)
  case Nil
  then show ?case by simp
next
  case (Cons kv w)
  obtain key "value" where kv: "kv = (key, value)" by (cases kv)
  show ?case
  proof (cases "(k, v) = (key, value)")
    case True
    then have "k \<notin> set (map fst w)"
      using Cons.prems(1) by (simp add: kv)
    then show ?thesis
      using True by (simp add: kv place_filters_Cons place_filters_other map_of_dict_set)
  next
    case False
    then have "(k, v) \<in> set w" and "distinct (map fst w)"
      using Cons.prems by (auto simp: kv)
    then show ?thesis
      using Cons.IH by (simp add: kv place_filters_Cons)
  qed
qed

lemma update_params_eq:
  "update_params options w =
     (case options of
        None \<Rightarrow> place_filters [] w
      | Some opts \<Rightarrow>
          if upd_returning opts \<noteq> []
          then dict_set ''returning'' (PStr (join '','' (upd_returning opts))) (place_filters [] w)
          else place_filters [] w)"
  by (simp add: update_params_def place_filters_def Let_def split: option.splits)

lemma delete_params_eq: "delete_params options w = update_params options w"
  by (simp add: update_params_def delete_params_def)

lemma query_params_eq:
  "query_params (Some opts) =
     (let p1 = place_filters
                 (if qo_select opts \<noteq> []
                  then dict_set ''select'' (PStr (join '','' (qo_select opts))) [] else [])
                 (qo_where opts);
          p2 = (case qo_order opts of
                  None \<Rightarrow> p1
                | Some ord \<Rightarrow> if ord \<noteq> [] then dict_set ''order'' (PStr ord) p1 else p1);
          p3 = (case qo_limit opts of
                  None \<Rightarrow> p2
                | Some n \<Rightarrow> if n \<noteq> 0 then dict_set ''limit'' (PInt n) p2 else p2)
      in (case qo_offset opts of
            None \<Rightarrow> p3
          | Some n \<Rightarrow> if n \<noteq> 0 then dict_set ''offset'' (PInt n) p3 else p3))"
  by (cases "qo_where opts = []")
     (simp_all add: query_params_def place_filters_def Let_def)

lemma option_keys_order:
  "k \<notin> set (query_option_keys opts) \<Longrightarrow> qo_order opts = Some ord \<Longrightarrow> ord \<noteq> [] \<Longrightarrow>
   k \<noteq> ''order''"
  by (simp add: query_option_keys_def)

lemma option_keys_limit:
  "k \<notin> set (query_option_keys opts) \<Longrightarrow> qo_limit opts = Some n \<Longrightarrow> n \<noteq> 0 \<Longrightarrow>
   k \<noteq> ''limit''"
  by (simp add: query_option_keys_def)

lemma option_keys_offset:
  "k \<notin> set (query_option_keys opts) \<Longrightarrow> qo_offset opts = Some n \<Longrightarrow> n \<noteq> 0 \<Longrightarrow>
   k \<noteq> ''offset''"
  by (simp add: query_option_keys_def)

lemma query_params_lookup:
  assumes "k \<notin> set (query_option_keys opts)"
  shows "map_of (query_params (Some opts)) k =
           map_of (place_filters
                 (if qo_select opts \<noteq> []
                  then dict_set ''select'' (PStr (join '','' (qo_select opts))) [] else [])
                 (qo_where opts)) k"
proof -
  let ?p1 = "place_filters
                 (if qo_select opts \<noteq> []
                  then dict_set ''select'' (PStr (join '','' (qo_select opts))) [] else [])
                 (qo_where opts)"
  let ?p2 = "case qo_order opts of
               None \<Rightarrow> ?p1
             | Some ord \<Rightarrow> if ord \<noteq> [] then dict_set ''order'' (PStr ord) ?p1 else ?p1"
  let ?p3 = "case qo_limit opts of
               None \<Rightarrow> ?p2
             | Some n \<Rightarrow> if n \<noteq> 0 then dict_set ''limit'' (PInt n) ?p2 else ?p2"
  let ?p4 = "case qo_offset opts of
               None \<Rightarrow> ?p3
             | Some n \<Rightarrow> if n \<noteq> 0 then dict_set ''offset'' (PInt n) ?p3 else ?p3"
  have e: "query_params (Some opts) = ?p4"
    by (simp add: query_params_eq Let_def)
  have s2: "map_of ?p2 k = map_of ?p1 k"
    using option_keys_order [OF assms]
    by (cases "qo_order opts") (simp_all add: map_of_dict_set)
  have s3: "map_of ?p3 k = map_of ?p2 k"
    using option_keys_limit [OF assms]
    by (cases "qo_limit opts") (simp_all add: map_of_dict_set)
  have s4: "map_of ?p4 k = map_of ?p3 k"
    using option_keys_offset [OF assms]
    by (cases "qo_offset opts") (simp_all add: map_of_dict_set)
  show ?thesis
    using s2 s3 s4 by (simp only: e)
qed

lemma update_params_lookup:
  assumes "k \<notin> set (returning_keys options)"
  shows "map_of (update_params options w) k = map_of (place_filters [] w) k"
proof (cases options)
  case None
  then show ?thesis by (simp add: update_params_eq)
next
  case (Some o2)
  then show ?thesis
    using assms by (simp add: update_params_eq returning_keys_def map_of_dict_set)
qed

text \<open>
  C7, as the code has it: for a mapping of conditions \<open>w\<close> (its keys distinct, as in any
  \<^verbatim>\<open>dict\<close>) and each entry \<open>(k, v)\<close> of it, the parameters that \<^verbatim>\<open>query\<close> builds
  from the where mapping \<open>w\<close>, and those that \<^verbatim>\<open>update\<close> and \<^verbatim>\<open>delete\<close> build from
  the keyword arguments \<open>w\<close>, hold under \<open>k\<close> the JSON text of \<open>v\<close> when \<open>v\<close> is a
  \<^verbatim>\<open>dict\<close> or a \<^verbatim>\<open>list\<close>, and \<^verbatim>\<open>str(v)\<close> for any other \<open>v\<close>: one rule in the three
  operations. (Only a key that an option of the same call writes after the loop holds
  something else.)
\<close>

theorem filter_values_serialized:
  assumes "distinct (map fst w)" and "(k, v) \<in> set w"
  shows "(k \<notin> set (query_option_keys opts) \<longrightarrow>
            map_of (query_params (Some (opts\<lparr>qo_where := w\<rparr>))) k =
              Some (PStr (serialize_filter_value v)))
       \<and> (k \<notin> set (returning_keys options) \<longrightarrow>
            map_of (update_params options w) k = Some (PStr (serialize_filter_value v)))
       \<and> (k \<notin> set (returning_keys options) \<longrightarrow>
            map_of (delete_params options w) k = Some (PStr (serialize_filter_value v)))"
proof (intro conjI impI)
  assume "k \<notin> set (query_option_keys opts)"
  then have "k \<notin> set (query_option_keys (opts\<lparr>qo_where := w\<rparr>))"
    by (simp add: query_option_keys_def)
  then show "map_of (query_params (Some (opts\<lparr>qo_where := w\<rparr>))) k =
              Some (PStr (serialize_filter_value v))"
    using place_filters_lookup [OF assms] by (simp add: query_params_lookup)
next
  assume "k \<notin> set (returning_keys options)"
  then show "map_of (update_params options w) k = Some (PStr (serialize_filter_value v))"
    using place_filters_lookup [OF assms] by (simp add: update_params_lookup)
next
  assume "k \<notin> set (returning_keys options)"
  then show "map_of (delete_params options w) k = Some (PStr (serialize_filter_value v))"
    using place_filters_lookup [OF assms] by (simp add: delete_params_eq update_params_lookup)
qed

theorem filter_values_serialized_witness:
  "distinct (map fst demo_filters)
   \<and> map_of (query_params (Some (demo_options\<lparr>qo_where := demo_filters\<rparr>))) ''age'' =
       Some (PStr [CHR ''{'', CHR 0x22, CHR ''g'', CHR ''t'', CHR ''e'', CHR 0x22, CHR '':'',
                   CHR '' '', CHR ''1'', CHR ''8'', CHR ''}''])
   \<and> map_of (update_params None demo_filters) ''limit'' = Some (PStr ''5'')
   \<and> map_of (delete_params None demo_filters) ''limit'' = Some (PStr ''5'')"
proof -
  have d: "distinct (map fst demo_filters)"
    by (simp add: demo_filters_def)
  have m1: "(''age'', PDict [(''gte'', PInt 18)]) \<in> set demo_filters"
    by (simp add: demo_filters_def)
  have m2: "(''limit'', PInt 5) \<in> set demo_filters"
    by (simp add: demo_filters_def)
  have s1: "serialize_filter_value (PDict [(''gte'', PInt 18)]) =
              [CHR ''{'', CHR 0x22, CHR ''g'', CHR ''t'', CHR ''e'', CHR 0x22, CHR '':'',
               CHR '' '', CHR ''1'', CHR ''8'', CHR ''}'']"
    by (simp add: serialize_filter_value_def str_int_def json_string_def json_escape_char_def)
  have s2: "serialize_filter_value (PInt 5) = ''5''"
    by (simp add: serialize_filter_value_def py_str_def str_int_def)
  have k1: "''age'' \<notin> set (query_option_keys demo_options)"
    by (simp add: query_option_keys_def demo_options_def QueryOptions_init_def)
  have k2: "''limit'' \<notin> set (returning_keys None)"
    by (simp add: returning_keys_def)
  show ?thesis
    using d s1 s2 k1 k2
      filter_values_serialized [OF d m1, of demo_options None]
      filter_values_serialized [OF d m2, of demo_options None]
    by simp
qed

text \<open>
  C7 as stated fails on a sequence that is not a \<^verbatim>\<open>list\<close>: the tuple \<^verbatim>\<open>(1, 2)\<close> is
  not a \<^verbatim>\<open>dict\<close> or a \<^verbatim>\<open>list\<close>, so the three operations send its \<^verbatim>\<open>str\<close>,
  \<^verbatim>\<open>(1, 2)\<close>, and not its JSON text \<^verbatim>\<open>[1, 2]\<close>.
\<close>

theorem tuple_filter_counterexample:
  "specified_filter_text (PTuple [PInt 1, PInt 2]) = ''[1, 2]''
   \<and> query_params (Some (QueryOptions_init None (Some tuple_filters) None None None None None
                          None)) =
       [(''ids'', PStr ''(1, 2)'')]
   \<and> update_params None tuple_filters = [(''ids'', PStr ''(1, 2)'')]
   \<and> delete_params None tuple_filters = [(''ids'', PStr ''(1, 2)'')]"
  by (simp add: specified_filter_text_def tuple_filters_def query_params_def update_params_def
        delete_params_def QueryOptions_init_def py_str_def str_int_def)

subsection \<open>Options that test false\<close>

lemma query_params_limit_zero:
  "query_params (Some (opts\<lparr>qo_limit := Some 0\<rparr>)) = query_params (Some (opts\<lparr>qo_limit := None\<rparr>))"
  by (simp add: query_params_eq Let_def split: option.splits)

lemma query_params_offset_zero:
  "query_params (Some (opts\<lparr>qo_offset := Some 0\<rparr>)) =
   query_params (Some (opts\<lparr>qo_offset := None\<rparr>))"
  by (simp add: query_params_eq Let_def split: option.splits)

text \<open>
  C10: \<^verbatim>\<open>query\<close> with \<^verbatim>\<open>limit=0\<close> does what it does with the limit unset, and
  likewise for \<^verbatim>\<open>offset=0\<close>: the parameter is not in the query string (unless the
  where mapping has a key of that name). The builders test the truth value of the
  fields, so an empty \<^verbatim>\<open>select\<close> sequence gives no \<^verbatim>\<open>select\<close> parameter either.
\<close>

theorem zero_limit_offset_omitted:
  "query self e table (Some (opts\<lparr>qo_limit := Some 0\<rparr>)) =
     query self e table (Some (opts\<lparr>qo_limit := None\<rparr>))
   \<and> query self e table (Some (opts\<lparr>qo_offset := Some 0\<rparr>)) =
     query self e table (Some (opts\<lparr>qo_offset := None\<rparr>))
   \<and> (map_of (qo_where opts) ''limit'' = None \<longrightarrow>
        map_of (query_params (Some (opts\<lparr>qo_limit := Some 0\<rparr>))) ''limit'' = None)
   \<and> (map_of (qo_where opts) ''offset'' = None \<longrightarrow>
        map_of (query_params (Some (opts\<lparr>qo_offset := Some 0\<rparr>))) ''offset'' = None)
   \<and> (map_of (qo_where opts) ''select'' = None \<longrightarrow>
        map_of (query_params (Some (opts\<lparr>qo_select := []\<rparr>))) ''select'' = None)"
proof (intro conjI impI)
  show "query self e table (Some (opts\<lparr>qo_limit := Some 0\<rparr>)) =
          query self e table (Some (opts\<lparr>qo_limit := None\<rparr>))"
    by (simp add: query_def query_params_limit_zero)
  show "query self e table (Some (opts\<lparr>qo_offset := Some 0\<rparr>)) =
          query self e table (Some (opts\<lparr>qo_offset := None\<rparr>))"
    by (simp add: query_def query_params_offset_zero)
next
  assume "map_of (qo_where opts) ''limit'' = None"
  then show "map_of (query_params (Some (opts\<lparr>qo_limit := Some 0\<rparr>))) ''limit'' = None"
    by (simp add: query_params_eq Let_def map_of_dict_set place_filters_absent
          split: option.splits)
next
  assume "map_of (qo_where opts) ''offset'' = None"
  then show "map_of (query_params (Some (opts\<lparr>qo_offset := Some 0\<rparr>))) ''offset'' = None"
    by (simp add: query_params_eq Let_def map_of_dict_set place_filters_absent
          split: option.splits)
next
  assume "map_of (qo_where opts) ''select'' = None"
  then show "map_of (query_params (Some (opts\<lparr>qo_select := []\<rparr>))) ''select'' = None"
    by (simp add: query_params_eq Let_def map_of_dict_set place_filters_absent
          split: option.splits)
qed

theorem zero_limit_offset_omitted_witness:
  "map_of (qo_where demo_options) ''limit'' = None
   \<and> map_of (qo_where demo_options) ''offset'' = None
   \<and> map_of (qo_where demo_options) ''select'' = None
   \<and> query_params (Some (demo_options\<lparr>qo_limit := Some 0\<rparr>)) =
       [(''select'', PStr ''id,name''), (''order'', PStr ''name'')]
   \<and> query_params (Some (demo_options\<lparr>qo_offset := Some 0\<rparr>)) =
       [(''select'', PStr ''id,name''), (''order'', PStr ''name''), (''limit'', PInt 10)]
   \<and> query_params (Some (demo_options\<lparr>qo_select := []\<rparr>)) =
       [(''order'', PStr ''name''), (''limit'', PInt 10)]
   \<and> map_of (query_params (Some (demo_options\<lparr>qo_limit := Some 0\<rparr>))) ''limit'' = None
   \<and> map_of (query_params (Some (demo_options\<lparr>qo_offset := Some 0\<rparr>))) ''offset'' = None
   \<and> map_of (query_params (Some (demo_options\<lparr>qo_select := []\<rparr>))) ''select'' = None"
proof -
  have w: "qo_where demo_options = []"
    by (simp add: demo_options_def QueryOptions_init_def)
  have p1: "query_params (Some (demo_options\<lparr>qo_limit := Some 0\<rparr>)) =
       [(''select'', PStr ''id,name''), (''order'', PStr ''name'')]"
    by (simp add: demo_options_def QueryOptions_init_def query_params_def)
  have p2: "query_params (Some (demo_options\<lparr>qo_offset := Some 0\<rparr>)) =
       [(''select'', PStr ''id,name''), (''order'', PStr ''name''), (''limit'', PInt 10)]"
    by (simp add: demo_options_def QueryOptions_init_def query_params_def)
  have p3: "query_params (Some (demo_options\<lparr>qo_select := []\<rparr>)) =
       [(''order'', PStr ''name''), (''limit'', PInt 10)]"
    by (simp add: demo_options_def QueryOptions_init_def query_params_def)
  have concl:
    "map_of (query_params (Some (demo_options\<lparr>qo_limit := Some 0\<rparr>))) ''limit'' = None
     \<and> map_of (query_params (Some (demo_options\<lparr>qo_offset := Some 0\<rparr>))) ''offset'' = None
     \<and> map_of (query_params (Some (demo_options\<lparr>qo_select := []\<rparr>))) ''select'' = None"
    using zero_limit_offset_omitted [of demo_client "answering health_response" "''users''"
        demo_options]
    by (simp add: w)
  show ?thesis
    using concl p1 p2 p3 by (simp add: w)
qed

end
